theory Spec2Isabelle
  imports Main
begin

section \<open>The course catalog: data model\<close>

text \<open>
  The repository holds five Flask entry points (\<^verbatim>\<open>app.py\<close>, \<^verbatim>\<open>app2.py\<close>, \<^verbatim>\<open>app3.py\<close>,
  \<^verbatim>\<open>app_jaeger.py\<close>, \<^verbatim>\<open>jaeger_trail.py\<close>) over one JSON file, \<^verbatim>\<open>course_catalog.json\<close>.
  The handlers are embedded as functions that take the state of the world and return
  a result together with the new state.

  What the embedding leaves out: log records and trace spans (the calls to
  \<^verbatim>\<open>logging\<close> and to the tracer), the HTML the templates produce (a rendered page is the
  template's name with the values handed to it), failures of the file system itself,
  and interleaving of concurrent requests.

  The text of the file is represented by what \<^verbatim>\<open>json.load\<close> makes of it: either the
  file is not there, or its text is not JSON, or it parses to a value. \<^verbatim>\<open>json.dump\<close>
  followed by \<^verbatim>\<open>json.load\<close> is taken to give the value back, which is what the
  library does for lists, dictionaries with string keys, strings, integers, booleans
  and \<^verbatim>\<open>None\<close>. Floating-point numbers are not represented.
\<close>

subsection \<open>Python values read from JSON\<close>

datatype json =
    JNull
  | JBool bool
  | JNum int
  | JStr string
  | JArr "json list"
  | JObj "(string \<times> json) list"

text \<open>A dictionary is the list of its items in insertion order; a key is looked up
  with \<^const>\<open>map_of\<close>.\<close>

datatype py_error = JSONDecodeError | AttributeError | TypeError | KeyError

text \<open>\<^verbatim>\<open>not x\<close> for the value of \<^verbatim>\<open>request.form.get(...)\<close>: \<^verbatim>\<open>None\<close> or a string.\<close>

fun py_not :: "string option \<Rightarrow> bool" where
  "py_not None = True"
| "py_not (Some s) = (s = [])"

text \<open>Truth value of a loaded JSON value, as \<^verbatim>\<open>if not course\<close> tests it.\<close>

fun truthy :: "json \<Rightarrow> bool" where
  "truthy JNull = False"
| "truthy (JBool b) = b"
| "truthy (JNum n) = (n \<noteq> 0)"
| "truthy (JStr s) = (s \<noteq> [])"
| "truthy (JArr xs) = (xs \<noteq> [])"
| "truthy (JObj kvs) = (kvs \<noteq> [])"

text \<open>\<^verbatim>\<open>v[key]\<close> with a string key: only a dictionary holding the key answers.\<close>

fun subscript :: "json \<Rightarrow> string \<Rightarrow> py_error + json" where
  "subscript (JObj kvs) k = (case map_of kvs k of None \<Rightarrow> Inl KeyError | Some v \<Rightarrow> Inr v)"
| "subscript v k = Inl TypeError"

text \<open>The items a \<^verbatim>\<open>for\<close> loop draws from a value: the elements of a list, the keys of
  a dictionary, the characters of a string; anything else is not iterable.\<close>

fun py_iter :: "json \<Rightarrow> py_error + json list" where
  "py_iter (JArr xs) = Inr xs"
| "py_iter (JObj kvs) = Inr (map (\<lambda>(k, v). JStr k) kvs)"
| "py_iter (JStr s) = Inr (map (\<lambda>c. JStr [c]) s)"
| "py_iter v = Inl TypeError"

text \<open>\<^verbatim>\<open>len(v)\<close>: lists, dictionaries and strings have a length.\<close>

fun py_len :: "json \<Rightarrow> py_error + nat" where
  "py_len (JArr xs) = Inr (length xs)"
| "py_len (JObj kvs) = Inr (length kvs)"
| "py_len (JStr s) = Inr (length s)"
| "py_len v = Inl TypeError"

text \<open>A form value as it is stored in the course dictionary, and as an f-string prints it.\<close>

fun to_json :: "string option \<Rightarrow> json" where
  "to_json None = JNull"
| "to_json (Some s) = JStr s"

fun py_str :: "string option \<Rightarrow> string" where
  "py_str None = ''None''"
| "py_str (Some s) = s"

text \<open>\<^verbatim>\<open>sep.join(xs)\<close>.\<close>

fun str_join :: "string \<Rightarrow> string list \<Rightarrow> string" where
  "str_join sep [] = []"
| "str_join sep [x] = x"
| "str_join sep (x # y # ys) = x @ sep @ str_join sep (y # ys)"

subsection \<open>State, requests and responses\<close>

datatype stored = Missing | Garbled | Holds json

record world =
  course_file :: stored
  flashes :: "(string \<times> string) list"

text \<open>\<^verbatim>\<open>request.method\<close> and \<^verbatim>\<open>request.form\<close>.\<close>

record request =
  req_method :: string
  form :: "string \<rightharpoonup> string"

datatype response =
    Render string "(string \<times> json) list"
  | Redirect string

type_synonym 'a outcome = "(py_error + 'a) \<times> world"

text \<open>\<^verbatim>\<open>flash(message, category)\<close> queues a notice for the next page view.\<close>

definition flash :: "world \<Rightarrow> string \<Rightarrow> string \<Rightarrow> world" where
  "flash w message category = w\<lparr>flashes := flashes w @ [(category, message)]\<rparr>"

text \<open>The five files.\<close>

datatype variant = App | App2 | App3 | App_jaeger | Jaeger_trail

section \<open>The course store\<close>

text \<open>\<^verbatim>\<open>load_courses\<close> and \<^verbatim>\<open>save_courses\<close> are the same in the five files.\<close>

definition load_courses :: "world \<Rightarrow> py_error + json" where
  "load_courses w =
     (case course_file w of
        Missing \<Rightarrow> Inr (JArr [])
      | Garbled \<Rightarrow> Inl JSONDecodeError
      | Holds v \<Rightarrow> Inr v)"

text \<open>\<^verbatim>\<open>courses.append(data)\<close> needs a list; the file is opened for writing only
  after it.\<close>

definition save_courses :: "world \<Rightarrow> json \<Rightarrow> unit outcome" where
  "save_courses w data =
     (case load_courses w of
        Inl e \<Rightarrow> (Inl e, w)
      | Inr courses \<Rightarrow>
          (case courses of
             JArr cs \<Rightarrow> (Inr (), w\<lparr>course_file := Holds (JArr (cs @ [data]))\<rparr>)
           | _ \<Rightarrow> (Inl AttributeError, w)))"

section \<open>The routes\<close>

definition index :: "world \<Rightarrow> response outcome" where
  "index w = (Inr (Render ''index.html'' []), w)"

text \<open>\<^verbatim>\<open>course_catalog\<close> of \<^verbatim>\<open>app.py\<close> and \<^verbatim>\<open>jaeger_trail.py\<close> (which also hands the
  time it measured to the template).\<close>

definition course_catalog :: "world \<Rightarrow> response outcome" where
  "course_catalog w =
     (case load_courses w of
        Inl e \<Rightarrow> (Inl e, w)
      | Inr courses \<Rightarrow> (Inr (Render ''course_catalog.html'' [(''courses'', courses)]), w))"

text \<open>\<^verbatim>\<open>course_catalog\<close> of \<^verbatim>\<open>app2.py\<close>, \<^verbatim>\<open>app3.py\<close> and \<^verbatim>\<open>app_jaeger.py\<close>: the number
  of courses is taken for the span before the page is rendered.\<close>

definition course_catalog2 :: "world \<Rightarrow> response outcome" where
  "course_catalog2 w =
     (case load_courses w of
        Inl e \<Rightarrow> (Inl e, w)
      | Inr courses \<Rightarrow>
          (case py_len courses of
             Inl e \<Rightarrow> (Inl e, w)
           | Inr n \<Rightarrow> (Inr (Render ''course_catalog.html'' [(''courses'', courses)]), w)))"

fun course_catalog_of :: "variant \<Rightarrow> world \<Rightarrow> response outcome" where
  "course_catalog_of App = course_catalog"
| "course_catalog_of App2 = course_catalog2"
| "course_catalog_of App3 = course_catalog2"
| "course_catalog_of App_jaeger = course_catalog2"
| "course_catalog_of Jaeger_trail = course_catalog"

text \<open>\<^verbatim>\<open>course_details\<close> is the same in the five files. The generator it hands to
  \<^verbatim>\<open>next\<close> tries the records in order: each one is subscripted with \<^verbatim>\<open>'code'\<close> before
  it is compared, and the search stops at the first hit.\<close>

fun find_course :: "json list \<Rightarrow> string \<Rightarrow> py_error + json option" where
  "find_course [] code = Inr None"
| "find_course (course # rest) code =
     (case subscript course ''code'' of
        Inl e \<Rightarrow> Inl e
      | Inr v \<Rightarrow> if v = JStr code then Inr (Some course) else find_course rest code)"

definition not_found_notice :: "string \<Rightarrow> string" where
  "not_found_notice code = ''No course found with code '' @ [CHR 0x27] @ code @ [CHR 0x27] @ ''.''"

definition course_details :: "world \<Rightarrow> string \<Rightarrow> response outcome" where
  "course_details w code =
     (case load_courses w of
        Inl e \<Rightarrow> (Inl e, w)
      | Inr courses \<Rightarrow>
          (case py_iter courses of
             Inl e \<Rightarrow> (Inl e, w)
           | Inr items \<Rightarrow>
               (case find_course items code of
                  Inl e \<Rightarrow> (Inl e, w)
                | Inr None \<Rightarrow>
                    (Inr (Redirect ''course_catalog''), flash w (not_found_notice code) ''error'')
                | Inr (Some course) \<Rightarrow>
                    if \<not> truthy course
                    then (Inr (Redirect ''course_catalog''),
                          flash w (not_found_notice code) ''error'')
                    else (Inr (Render ''course_details.html'' [(''course'', course)]), w))))"

text \<open>The dictionary \<^verbatim>\<open>add_course\<close> hands to \<^verbatim>\<open>save_courses\<close>.\<close>

definition new_course ::
  "string option \<Rightarrow> string option \<Rightarrow> string option \<Rightarrow> string option \<Rightarrow> json" where
  "new_course course_name instructor semester course_code =
     JObj [(''name'', to_json course_name),
           (''instructor'', to_json instructor),
           (''semester'', to_json semester),
           (''code'', to_json course_code)]"

text \<open>The end of \<^verbatim>\<open>add_course\<close>, the same in the five files: the course is saved, the
  success notice is flashed and the browser is sent to the catalog. An exception of
  \<^verbatim>\<open>save_courses\<close> ends the request.\<close>

definition added_notice :: "string option \<Rightarrow> string" where
  "added_notice course_name =
     ''Course '' @ [CHR 0x27] @ py_str course_name @ [CHR 0x27] @ '' added successfully!''"

definition store_course ::
  "world \<Rightarrow> string option \<Rightarrow> string option \<Rightarrow> string option \<Rightarrow> string option
     \<Rightarrow> response outcome" where
  "store_course w course_name instructor semester course_code =
     (case save_courses w (new_course course_name instructor semester course_code) of
        (Inl e, w') \<Rightarrow> (Inl e, w')
      | (Inr u, w') \<Rightarrow>
          (Inr (Redirect ''course_catalog''), flash w' (added_notice course_name) ''success''))"

text \<open>\<^verbatim>\<open>add_course\<close> of \<^verbatim>\<open>app.py\<close>, \<^verbatim>\<open>app_jaeger.py\<close> and \<^verbatim>\<open>jaeger_trail.py\<close>: the
  labels of the fields that fail \<^verbatim>\<open>if not ...\<close> are collected in the order of the
  four tests.\<close>

definition missing_fields :: "(string \<rightharpoonup> string) \<Rightarrow> string list" where
  "missing_fields f =
     (if py_not (f ''name'') then [''Course Name''] else []) @
     (if py_not (f ''instructor'') then [''Instructor''] else []) @
     (if py_not (f ''semester'') then [''Semester''] else []) @
     (if py_not (f ''code'') then [''Course Code''] else [])"

definition required_notice :: "string list \<Rightarrow> string" where
  "required_notice missing =
     ''Error: The following fields are required: '' @ str_join '', '' missing @ ''.''"

definition add_course :: "world \<Rightarrow> request \<Rightarrow> response outcome" where
  "add_course w req =
     (if req_method req = ''POST'' then
        (let course_name = form req ''name'';
             instructor = form req ''instructor'';
             semester = form req ''semester'';
             course_code = form req ''code'';
             missing = missing_fields (form req)
         in if missing \<noteq> []
            then (Inr (Redirect ''add_course''), flash w (required_notice missing) ''error'')
            else store_course w course_name instructor semester course_code)
      else (Inr (Render ''add_course.html'' []), w))"

text \<open>\<^verbatim>\<open>add_course\<close> of \<^verbatim>\<open>app2.py\<close> and \<^verbatim>\<open>app3.py\<close>: one test, on the name and the
  instructor, and one fixed notice.\<close>

definition add_course2 :: "world \<Rightarrow> request \<Rightarrow> response outcome" where
  "add_course2 w req =
     (if req_method req = ''POST'' then
        (let course_name = form req ''name'';
             instructor = form req ''instructor'';
             semester = form req ''semester'';
             course_code = form req ''code''
         in if py_not course_name \<or> py_not instructor
            then (Inr (Redirect ''add_course''),
                  flash w ''Error: Course name and instructor are required.'' ''error'')
            else store_course w course_name instructor semester course_code)
      else (Inr (Render ''add_course.html'' []), w))"

fun add_course_of :: "variant \<Rightarrow> world \<Rightarrow> request \<Rightarrow> response outcome" where
  "add_course_of App = add_course"
| "add_course_of App2 = add_course2"
| "add_course_of App3 = add_course2"
| "add_course_of App_jaeger = add_course"
| "add_course_of Jaeger_trail = add_course"

section \<open>Notions used to state the properties\<close>

text \<open>The value under \<^verbatim>\<open>'code'\<close> of a stored record, when the record is a dictionary
  that has the key.\<close>

fun code_field :: "json \<Rightarrow> json option" where
  "code_field (JObj kvs) = map_of kvs ''code''"
| "code_field v = None"

text \<open>The four form fields with the labels the notices use, and the labels of the
  fields of a form that are empty or absent.\<close>

definition field_labels :: "(string \<times> string) list" where
  "field_labels =
     [(''name'', ''Course Name''), (''instructor'', ''Instructor''),
      (''semester'', ''Semester''), (''code'', ''Course Code'')]"

definition empty_labels :: "(string \<rightharpoonup> string) \<Rightarrow> string list" where
  "empty_labels f = map snd (filter (\<lambda>(k, l). py_not (f k)) field_labels)"

text \<open>The record a form gives rise to.\<close>

definition course_of :: "(string \<rightharpoonup> string) \<Rightarrow> json" where
  "course_of f = new_course (f ''name'') (f ''instructor'') (f ''semester'') (f ''code'')"

text \<open>A run of submissions: each form is posted to \<^verbatim>\<open>/add_course\<close> in turn.\<close>

fun add_all :: "variant \<Rightarrow> world \<Rightarrow> (string \<rightharpoonup> string) list \<Rightarrow> world" where
  "add_all v w [] = w"
| "add_all v w (f # fs) =
     add_all v (snd (add_course_of v w \<lparr>req_method = ''POST'', form = f\<rparr>)) fs"

section \<open>Auxiliary facts\<close>

lemma missing_fields_labels: "missing_fields f = empty_labels f"
  by (simp add: missing_fields_def empty_labels_def field_labels_def)

lemma missing_fields_Nil:
  "missing_fields f = [] \<longleftrightarrow>
   \<not> py_not (f ''name'') \<and> \<not> py_not (f ''instructor'') \<and>
   \<not> py_not (f ''semester'') \<and> \<not> py_not (f ''code'')"
  by (simp add: missing_fields_def)

lemma empty_labels_Nil:
  "empty_labels f = [] \<longleftrightarrow>
   \<not> py_not (f ''name'') \<and> \<not> py_not (f ''instructor'') \<and>
   \<not> py_not (f ''semester'') \<and> \<not> py_not (f ''code'')"
  using missing_fields_Nil [of f] by (simp add: missing_fields_labels)

lemma subscript_code_field:
  "subscript c ''code'' =
     (case code_field c of
        Some v \<Rightarrow> Inr v
      | None \<Rightarrow> (case c of JObj kvs \<Rightarrow> Inl KeyError | _ \<Rightarrow> Inl TypeError))"
  by (cases c) (auto split: option.splits)

lemma code_field_truthy: "code_field c = Some v \<Longrightarrow> truthy c"
  by (cases c) auto

lemma find_course_find:
  "\<forall>c\<in>set cs. code_field c \<noteq> None \<Longrightarrow>
   find_course cs code = Inr (find (\<lambda>c. code_field c = Some (JStr code)) cs)"
  by (induction cs) (auto simp: subscript_code_field split: option.splits)

lemma find_course_None:
  "find_course cs code = Inr None \<Longrightarrow> \<forall>c\<in>set cs. code_field c \<noteq> None"
  by (induction cs) (auto simp: subscript_code_field split: option.splits json.splits if_splits)

lemma find_course_Some:
  "find_course cs code = Inr (Some c) \<Longrightarrow> c \<in> set cs \<and> code_field c = Some (JStr code)"
  by (induction cs) (auto simp: subscript_code_field split: option.splits json.splits if_splits)

lemma find_course_error:
  "find_course cs code = Inl e \<Longrightarrow> e = KeyError \<or> e = TypeError"
  by (induction cs) (auto simp: subscript_code_field split: option.splits json.splits if_splits)

lemma load_courses_Holds [simp]: "load_courses (w\<lparr>course_file := Holds v\<rparr>) = Inr v"
  by (simp add: load_courses_def)

lemma load_courses_flash [simp]: "load_courses (flash w m c) = load_courses w"
  by (simp add: load_courses_def flash_def)

lemma course_file_flash [simp]: "course_file (flash w m c) = course_file w"
  by (simp add: flash_def)

lemma course_catalog_of_list:
  "load_courses w = Inr (JArr cs) \<Longrightarrow>
   course_catalog_of v w = (Inr (Render ''course_catalog.html'' [(''courses'', JArr cs)]), w)"
  by (cases v) (simp_all add: course_catalog_def course_catalog2_def)

lemma course_catalog_of_error:
  "load_courses w = Inl e \<Longrightarrow> course_catalog_of v w = (Inl e, w)"
  by (cases v) (simp_all add: course_catalog_def course_catalog2_def)

lemma course_catalog_of_frame: "snd (course_catalog_of v w) = w"
  by (cases v) (simp_all add: course_catalog_def course_catalog2_def split: sum.splits)

lemma save_courses_list:
  "load_courses w = Inr (JArr cs) \<Longrightarrow>
   save_courses w d = (Inr (), w\<lparr>course_file := Holds (JArr (cs @ [d]))\<rparr>)"
  by (simp add: save_courses_def)

lemma save_courses_cases:
  "(\<exists>e. save_courses w d = (Inl e, w)) \<or>
   (\<exists>cs. load_courses w = Inr (JArr cs) \<and>
      save_courses w d = (Inr (), w\<lparr>course_file := Holds (JArr (cs @ [d]))\<rparr>))"
  by (auto simp: save_courses_def split: sum.splits json.splits)

lemma store_course_list:
  "load_courses w = Inr (JArr cs) \<Longrightarrow>
   store_course w n i s c =
     (Inr (Redirect ''course_catalog''),
      flash (w\<lparr>course_file := Holds (JArr (cs @ [new_course n i s c]))\<rparr>)
        (added_notice n) ''success'')"
  by (simp add: store_course_def save_courses_list)

lemma store_course_cases:
  "(\<exists>e. store_course w n i s c = (Inl e, w)) \<or>
   (\<exists>cs. load_courses w = Inr (JArr cs) \<and>
      store_course w n i s c =
        (Inr (Redirect ''course_catalog''),
         flash (w\<lparr>course_file := Holds (JArr (cs @ [new_course n i s c]))\<rparr>)
           (added_notice n) ''success''))"
  using save_courses_cases [of w "new_course n i s c"]
  by (auto simp: store_course_def)

lemma store_course_frame:
  "(if fst (store_course w n i s c) = Inr (Redirect ''course_catalog'')
    then \<exists>cs. load_courses w = Inr (JArr cs) \<and>
           load_courses (snd (store_course w n i s c)) = Inr (JArr (cs @ [new_course n i s c]))
    else course_file (snd (store_course w n i s c)) = course_file w)"
  using store_course_cases [of w n i s c] by auto

lemma add_course_post:
  "req_method req = ''POST'' \<Longrightarrow>
   add_course w req =
     (if missing_fields (form req) \<noteq> []
      then (Inr (Redirect ''add_course''),
            flash w (required_notice (missing_fields (form req))) ''error'')
      else store_course w (form req ''name'') (form req ''instructor'')
             (form req ''semester'') (form req ''code''))"
  by (simp add: add_course_def Let_def)

lemma add_course2_post:
  "req_method req = ''POST'' \<Longrightarrow>
   add_course2 w req =
     (if py_not (form req ''name'') \<or> py_not (form req ''instructor'')
      then (Inr (Redirect ''add_course''),
            flash w ''Error: Course name and instructor are required.'' ''error'')
      else store_course w (form req ''name'') (form req ''instructor'')
             (form req ''semester'') (form req ''code''))"
  by (simp add: add_course2_def Let_def)

lemma strict_variant:
  "v \<in> {App, App_jaeger, Jaeger_trail} \<Longrightarrow> add_course_of v = add_course"
  by auto

lemma lenient_variant: "v \<in> {App2, App3} \<Longrightarrow> add_course_of v = add_course2"
  by auto

lemma add_course_of_filled:
  assumes "req_method req = ''POST''" and "empty_labels (form req) = []"
  shows "add_course_of v w req =
     store_course w (form req ''name'') (form req ''instructor'')
       (form req ''semester'') (form req ''code'')"
proof (cases "v \<in> {App, App_jaeger, Jaeger_trail}")
  case True
  then have "add_course_of v = add_course" by (rule strict_variant)
  with assms show ?thesis
    by (simp add: add_course_post missing_fields_labels)
next
  case False
  then have "v \<in> {App2, App3}" by (cases v) auto
  then have "add_course_of v = add_course2" by (rule lenient_variant)
  with assms show ?thesis
    by (simp add: add_course2_post empty_labels_Nil)
qed

lemma add_course_of_filled_list:
  assumes "req_method req = ''POST''" and "empty_labels (form req) = []"
    and "load_courses w = Inr (JArr cs)"
  shows "add_course_of v w req =
     (Inr (Redirect ''course_catalog''),
      flash (w\<lparr>course_file := Holds (JArr (cs @ [course_of (form req)]))\<rparr>)
        (added_notice (form req ''name'')) ''success'')"
  using assms by (simp add: add_course_of_filled store_course_list course_of_def)

lemma load_add_all:
  "load_courses w = Inr (JArr cs) \<Longrightarrow> \<forall>f\<in>set fs. empty_labels f = [] \<Longrightarrow>
   load_courses (add_all v w fs) = Inr (JArr (cs @ map course_of fs))"
proof (induction fs arbitrary: w cs)
  case Nil
  then show ?case by simp
next
  case (Cons f fs)
  let ?w = "snd (add_course_of v w \<lparr>req_method = ''POST'', form = f\<rparr>)"
  from Cons.prems have "load_courses ?w = Inr (JArr (cs @ [course_of f]))"
    by (simp add: add_course_of_filled_list [where cs = cs])
  moreover from Cons.prems have "\<forall>g\<in>set fs. empty_labels g = []" by simp
  ultimately have "load_courses (add_all v ?w fs) = Inr (JArr ((cs @ [course_of f]) @ map course_of fs))"
    by (rule Cons.IH)
  then show ?case by simp
qed

lemma add_course_frame:
  "(if fst (add_course w req) = Inr (Redirect ''course_catalog'')
    then \<exists>cs. load_courses w = Inr (JArr cs) \<and>
           load_courses (snd (add_course w req)) = Inr (JArr (cs @ [course_of (form req)]))
    else course_file (snd (add_course w req)) = course_file w)"
proof (cases "req_method req = ''POST'' \<and> missing_fields (form req) = []")
  case True
  then have "add_course w req = store_course w (form req ''name'') (form req ''instructor'')
      (form req ''semester'') (form req ''code'')"
    by (simp add: add_course_post)
  then show ?thesis
    using store_course_frame [of w "form req ''name''" "form req ''instructor''"
        "form req ''semester''" "form req ''code''"]
    by (simp add: course_of_def)
next
  case False
  then show ?thesis by (auto simp: add_course_def Let_def)
qed

lemma add_course2_frame:
  "(if fst (add_course2 w req) = Inr (Redirect ''course_catalog'')
    then \<exists>cs. load_courses w = Inr (JArr cs) \<and>
           load_courses (snd (add_course2 w req)) = Inr (JArr (cs @ [course_of (form req)]))
    else course_file (snd (add_course2 w req)) = course_file w)"
proof (cases "req_method req = ''POST'' \<and> \<not> (py_not (form req ''name'') \<or> py_not (form req ''instructor''))")
  case True
  then have "add_course2 w req = store_course w (form req ''name'') (form req ''instructor'')
      (form req ''semester'') (form req ''code'')"
    by (simp add: add_course2_post)
  then show ?thesis
    using store_course_frame [of w "form req ''name''" "form req ''instructor''"
        "form req ''semester''" "form req ''code''"]
    by (simp add: course_of_def)
next
  case False
  then show ?thesis by (auto simp: add_course2_def Let_def)
qed

lemma course_details_frame: "course_file (snd (course_details w code)) = course_file w"
  by (simp add: course_details_def split: sum.splits option.splits)

lemma course_details_list:
  "load_courses w = Inr (JArr cs) \<Longrightarrow>
   fst (course_details w code) =
     (case find_course cs code of
        Inl e \<Rightarrow> Inl e
      | Inr None \<Rightarrow> Inr (Redirect ''course_catalog'')
      | Inr (Some c) \<Rightarrow> Inr (Render ''course_details.html'' [(''course'', c)]))"
  by (auto simp: course_details_def split: sum.splits option.splits
      dest: find_course_Some code_field_truthy)

section \<open>Validation of a submission\<close>

text \<open>
  C1, as the code has it. A submission is a POST to \<^verbatim>\<open>/add_course\<close>. In \<^verbatim>\<open>app.py\<close>,
  \<^verbatim>\<open>app_jaeger.py\<close> and \<^verbatim>\<open>jaeger_trail.py\<close> the four fields name, instructor, semester
  and code are validated: when one of them is empty or absent the handler redirects to
  the form with an error notice that lists exactly the labels of the empty or absent
  fields, in the order of the form, and otherwise the course is handed to the store.
  In \<^verbatim>\<open>app2.py\<close> and \<^verbatim>\<open>app3.py\<close> only the name and the instructor are validated: when one
  of the two is empty or absent the handler redirects to the form with one fixed notice,
  and otherwise the course is handed to the store, whatever the semester and the code.
\<close>

theorem add_course_validation:
  assumes "req_method req = ''POST''"
  shows "(v \<in> {App, App_jaeger, Jaeger_trail} \<longrightarrow>
            add_course_of v w req =
              (if empty_labels (form req) = []
               then store_course w (form req ''name'') (form req ''instructor'')
                      (form req ''semester'') (form req ''code'')
               else (Inr (Redirect ''add_course''),
                     flash w (required_notice (empty_labels (form req))) ''error'')))
       \<and> (v \<in> {App2, App3} \<longrightarrow>
            add_course_of v w req =
              (if py_not (form req ''name'') \<or> py_not (form req ''instructor'')
               then (Inr (Redirect ''add_course''),
                     flash w ''Error: Course name and instructor are required.'' ''error'')
               else store_course w (form req ''name'') (form req ''instructor'')
                      (form req ''semester'') (form req ''code'')))"
proof (intro conjI impI)
  assume "v \<in> {App, App_jaeger, Jaeger_trail}"
  then have "add_course_of v = add_course" by (rule strict_variant)
  with assms show "add_course_of v w req =
      (if empty_labels (form req) = []
       then store_course w (form req ''name'') (form req ''instructor'')
              (form req ''semester'') (form req ''code'')
       else (Inr (Redirect ''add_course''),
             flash w (required_notice (empty_labels (form req))) ''error''))"
    by (simp add: add_course_post missing_fields_labels)
next
  assume "v \<in> {App2, App3}"
  then have "add_course_of v = add_course2" by (rule lenient_variant)
  with assms show "add_course_of v w req =
      (if py_not (form req ''name'') \<or> py_not (form req ''instructor'')
       then (Inr (Redirect ''add_course''),
             flash w ''Error: Course name and instructor are required.'' ''error'')
       else store_course w (form req ''name'') (form req ''instructor'')
              (form req ''semester'') (form req ''code''))"
    by (simp add: add_course2_post)
qed

text \<open>With the name alone filled in, \<^verbatim>\<open>jaeger_trail.py\<close> lists the three other labels
  and \<^verbatim>\<open>app3.py\<close> answers with its fixed notice.\<close>

theorem add_course_validation_witness:
  "req_method \<lparr>req_method = ''POST'', form = [''name'' \<mapsto> ''Algorithms'', ''semester'' \<mapsto> '''']\<rparr>
     = ''POST''
   \<and> Jaeger_trail \<in> {App, App_jaeger, Jaeger_trail} \<and> App3 \<in> {App2, App3}
   \<and> add_course_of Jaeger_trail \<lparr>course_file = Missing, flashes = []\<rparr>
       \<lparr>req_method = ''POST'', form = [''name'' \<mapsto> ''Algorithms'', ''semester'' \<mapsto> '''']\<rparr>
     = (Inr (Redirect ''add_course''),
        \<lparr>course_file = Missing,
         flashes = [(''error'',
           ''Error: The following fields are required: Instructor, Semester, Course Code.'')]\<rparr>)
   \<and> add_course_of App3 \<lparr>course_file = Missing, flashes = []\<rparr>
       \<lparr>req_method = ''POST'', form = [''name'' \<mapsto> ''Algorithms'', ''semester'' \<mapsto> '''']\<rparr>
     = (Inr (Redirect ''add_course''),
        \<lparr>course_file = Missing,
         flashes = [(''error'', ''Error: Course name and instructor are required.'')]\<rparr>)"
  using
    add_course_validation
      [of "\<lparr>req_method = ''POST'', form = [''name'' \<mapsto> ''Algorithms'', ''semester'' \<mapsto> '''']\<rparr>"
        Jaeger_trail "\<lparr>course_file = Missing, flashes = []\<rparr>"]
    add_course_validation
      [of "\<lparr>req_method = ''POST'', form = [''name'' \<mapsto> ''Algorithms'', ''semester'' \<mapsto> '''']\<rparr>"
        App3 "\<lparr>course_file = Missing, flashes = []\<rparr>"]
  by (simp add: empty_labels_def field_labels_def required_notice_def flash_def)

text \<open>C1 as it is written fails in \<^verbatim>\<open>app2.py\<close>: a submission whose code is empty is
  accepted and stored, and a submission that lacks only the name is answered with a
  notice that names the instructor as well.\<close>

theorem add_course_validation_counterexample:
  "add_course_of App2 \<lparr>course_file = Missing, flashes = []\<rparr>
     \<lparr>req_method = ''POST'',
      form = [''name'' \<mapsto> ''Algorithms'', ''instructor'' \<mapsto> ''Dr. A'',
              ''semester'' \<mapsto> ''Fall'', ''code'' \<mapsto> '''']\<rparr>
   = (Inr (Redirect ''course_catalog''),
      \<lparr>course_file = Holds (JArr [JObj [(''name'', JStr ''Algorithms''),
           (''instructor'', JStr ''Dr. A''), (''semester'', JStr ''Fall''),
           (''code'', JStr '''')]]),
       flashes = [(''success'',
           ''Course '' @ [CHR 0x27] @ ''Algorithms'' @ [CHR 0x27] @ '' added successfully!'')]\<rparr>)
   \<and> add_course_of App2 \<lparr>course_file = Missing, flashes = []\<rparr>
     \<lparr>req_method = ''POST'',
      form = [''instructor'' \<mapsto> ''Dr. A'', ''semester'' \<mapsto> ''Fall'',
              ''code'' \<mapsto> ''CS301'']\<rparr>
   = (Inr (Redirect ''add_course''),
      \<lparr>course_file = Missing,
       flashes = [(''error'', ''Error: Course name and instructor are required.'')]\<rparr>)"
  by (simp add: add_course2_def store_course_def save_courses_def load_courses_def
      new_course_def added_notice_def flash_def)

text \<open>
  C2. A submission in which a field that the handler validates is empty or absent is
  answered with the redirect to the form and one more error notice, and the file is
  what it was. The validated fields are the four of the form in \<^verbatim>\<open>app.py\<close>,
  \<^verbatim>\<open>app_jaeger.py\<close> and \<^verbatim>\<open>jaeger_trail.py\<close>, and the name and the instructor in
  \<^verbatim>\<open>app2.py\<close> and \<^verbatim>\<open>app3.py\<close>.
\<close>

theorem add_course_rejects_without_write:
  assumes "req_method req = ''POST''" and "py_not (form req k)"
    and "v \<in> {App, App_jaeger, Jaeger_trail} \<and> k \<in> {''name'', ''instructor'', ''semester'', ''code''}
       \<or> v \<in> {App2, App3} \<and> k \<in> {''name'', ''instructor''}"
  shows "fst (add_course_of v w req) = Inr (Redirect ''add_course'')
     \<and> course_file (snd (add_course_of v w req)) = course_file w
     \<and> (\<exists>notice. flashes (snd (add_course_of v w req)) = flashes w @ [(''error'', notice)])"
  using assms(3)
proof
  assume s: "v \<in> {App, App_jaeger, Jaeger_trail} \<and> k \<in> {''name'', ''instructor'', ''semester'', ''code''}"
  then have "add_course_of v = add_course" by (simp add: strict_variant)
  moreover from s assms(2) have "missing_fields (form req) \<noteq> []"
    by (auto simp: missing_fields_Nil)
  ultimately show ?thesis using assms(1)
    by (simp add: add_course_post flash_def)
next
  assume s: "v \<in> {App2, App3} \<and> k \<in> {''name'', ''instructor''}"
  then have "add_course_of v = add_course2" by (simp add: lenient_variant)
  moreover from s assms(2) have "py_not (form req ''name'') \<or> py_not (form req ''instructor'')"
    by auto
  ultimately show ?thesis using assms(1)
    by (simp add: add_course2_post flash_def)
qed

text \<open>An empty instructor over a file of one record.\<close>

theorem add_course_rejects_without_write_witness:
  "req_method \<lparr>req_method = ''POST'', form = [''name'' \<mapsto> ''Algorithms'', ''instructor'' \<mapsto> '''',
       ''semester'' \<mapsto> ''Fall'', ''code'' \<mapsto> ''CS301'']\<rparr> = ''POST''
   \<and> py_not (form \<lparr>req_method = ''POST'', form = [''name'' \<mapsto> ''Algorithms'', ''instructor'' \<mapsto> '''',
       ''semester'' \<mapsto> ''Fall'', ''code'' \<mapsto> ''CS301'']\<rparr> ''instructor'')
   \<and> App \<in> {App, App_jaeger, Jaeger_trail}
   \<and> ''instructor'' \<in> {''name'', ''instructor'', ''semester'', ''code''}
   \<and> fst (add_course_of App \<lparr>course_file = Holds (JArr [JObj [(''code'', JStr ''CS100'')]]), flashes = []\<rparr>
        \<lparr>req_method = ''POST'', form = [''name'' \<mapsto> ''Algorithms'', ''instructor'' \<mapsto> '''',
       ''semester'' \<mapsto> ''Fall'', ''code'' \<mapsto> ''CS301'']\<rparr>) = Inr (Redirect ''add_course'')
   \<and> course_file (snd (add_course_of App \<lparr>course_file = Holds (JArr [JObj [(''code'', JStr ''CS100'')]]), flashes = []\<rparr>
        \<lparr>req_method = ''POST'', form = [''name'' \<mapsto> ''Algorithms'', ''instructor'' \<mapsto> '''',
       ''semester'' \<mapsto> ''Fall'', ''code'' \<mapsto> ''CS301'']\<rparr>))
      = Holds (JArr [JObj [(''code'', JStr ''CS100'')]])"
proof -
  let ?req = "\<lparr>req_method = ''POST'', form = [''name'' \<mapsto> ''Algorithms'', ''instructor'' \<mapsto> '''',
       ''semester'' \<mapsto> ''Fall'', ''code'' \<mapsto> ''CS301'']\<rparr>"
  let ?w = "\<lparr>course_file = Holds (JArr [JObj [(''code'', JStr ''CS100'')]]), flashes = []\<rparr>"
  have a: "req_method ?req = ''POST''" by simp
  have b: "py_not (form ?req ''instructor'')" by simp
  have c: "App \<in> {App, App_jaeger, Jaeger_trail} \<and> ''instructor'' \<in> {''name'', ''instructor'', ''semester'', ''code''}
       \<or> App \<in> {App2, App3} \<and> ''instructor'' \<in> {''name'', ''instructor''}" by simp
  show ?thesis
    using a b add_course_rejects_without_write [OF a b c, of ?w] by simp
qed

text \<open>
  C9. In \<^verbatim>\<open>app.py\<close>, \<^verbatim>\<open>app_jaeger.py\<close> and \<^verbatim>\<open>jaeger_trail.py\<close> a field sent as the empty
  string and a field not sent at all give the same outcome, and a submission whose four
  fields are non-empty strings, of whatever characters, passes the validation and is
  handed to the store.
\<close>

theorem empty_field_as_absent:
  assumes "v \<in> {App, App_jaeger, Jaeger_trail}"
  shows "add_course_of v w (req\<lparr>form := (form req)(k \<mapsto> [])\<rparr>)
       = add_course_of v w (req\<lparr>form := (form req)(k := None)\<rparr>)
     \<and> (req_method req = ''POST''
        \<and> (\<forall>k\<in>{''name'', ''instructor'', ''semester'', ''code''}. \<exists>s. form req k = Some s \<and> s \<noteq> [])
        \<longrightarrow> add_course_of v w req =
              store_course w (form req ''name'') (form req ''instructor'')
                (form req ''semester'') (form req ''code''))"
proof (intro conjI impI)
  from assms have v: "add_course_of v = add_course" by (rule strict_variant)
  show "add_course_of v w (req\<lparr>form := (form req)(k \<mapsto> [])\<rparr>)
       = add_course_of v w (req\<lparr>form := (form req)(k := None)\<rparr>)"
    unfolding v by (simp add: add_course_def Let_def missing_fields_def)
next
  assume a: "req_method req = ''POST''
        \<and> (\<forall>k\<in>{''name'', ''instructor'', ''semester'', ''code''}. \<exists>s. form req k = Some s \<and> s \<noteq> [])"
  then have "empty_labels (form req) = []"
    by (auto simp: empty_labels_Nil)
  with a show "add_course_of v w req =
              store_course w (form req ''name'') (form req ''instructor'')
                (form req ''semester'') (form req ''code'')"
    by (simp add: add_course_of_filled)
qed

text \<open>Four fields of one blank each are stored; a code that is empty and a code that is
  absent are answered alike.\<close>

theorem empty_field_as_absent_witness:
  "App \<in> {App, App_jaeger, Jaeger_trail}
   \<and> req_method \<lparr>req_method = ''POST'', form = [''name'' \<mapsto> '' '', ''instructor'' \<mapsto> '' '',
        ''semester'' \<mapsto> '' '', ''code'' \<mapsto> '' '']\<rparr> = ''POST''
   \<and> list_all (\<lambda>k.
         \<exists>s. form \<lparr>req_method = ''POST'', form = [''name'' \<mapsto> '' '', ''instructor'' \<mapsto> '' '',
        ''semester'' \<mapsto> '' '', ''code'' \<mapsto> '' '']\<rparr> k = Some s \<and> s \<noteq> [])
        [''name'', ''instructor'', ''semester'', ''code'']
   \<and> fst (add_course_of App \<lparr>course_file = Missing, flashes = []\<rparr>
        \<lparr>req_method = ''POST'', form = [''name'' \<mapsto> '' '', ''instructor'' \<mapsto> '' '',
        ''semester'' \<mapsto> '' '', ''code'' \<mapsto> '' '']\<rparr>) = Inr (Redirect ''course_catalog'')
   \<and> course_file (snd (add_course_of App \<lparr>course_file = Missing, flashes = []\<rparr>
        \<lparr>req_method = ''POST'', form = [''name'' \<mapsto> '' '', ''instructor'' \<mapsto> '' '',
        ''semester'' \<mapsto> '' '', ''code'' \<mapsto> '' '']\<rparr>))
     = Holds (JArr [JObj [(''name'', JStr '' ''), (''instructor'', JStr '' ''),
                          (''semester'', JStr '' ''), (''code'', JStr '' '')]])
   \<and> add_course_of App \<lparr>course_file = Missing, flashes = []\<rparr>
        \<lparr>req_method = ''POST'', form = [''name'' \<mapsto> '' '', ''instructor'' \<mapsto> '' '',
        ''semester'' \<mapsto> '' '', ''code'' \<mapsto> '''']\<rparr>
     = add_course_of App \<lparr>course_file = Missing, flashes = []\<rparr>
        \<lparr>req_method = ''POST'', form = [''name'' \<mapsto> '' '', ''instructor'' \<mapsto> '' '',
        ''semester'' \<mapsto> '' '']\<rparr>"
proof -
  let ?w = "\<lparr>course_file = Missing, flashes = []\<rparr>"
  let ?f = "[''name'' \<mapsto> '' '', ''instructor'' \<mapsto> '' '', ''semester'' \<mapsto> '' '']"
  let ?req = "\<lparr>req_method = ''POST'', form = ?f(''code'' \<mapsto> '' '')\<rparr>"
  have v: "App \<in> {App, App_jaeger, Jaeger_trail}" by simp
  show ?thesis
    using v empty_field_as_absent [OF v, of ?w ?req "''code''"]
    by (simp add: store_course_def save_courses_def load_courses_def new_course_def)
qed

section \<open>The store\<close>

text \<open>
  C4. With no file, \<^verbatim>\<open>load_courses\<close> returns the empty list. With a file that is not
  JSON it raises the decoding error, and nothing catches it: \<^verbatim>\<open>save_courses\<close>, the
  catalog, the detail page and an accepted submission all end in that error, with the
  state as it was.
\<close>

theorem load_courses_missing_or_garbled:
  "(course_file w = Missing \<longrightarrow> load_courses w = Inr (JArr []))
   \<and> (course_file w = Garbled \<longrightarrow>
        load_courses w = Inl JSONDecodeError
        \<and> save_courses w d = (Inl JSONDecodeError, w)
        \<and> course_catalog_of v w = (Inl JSONDecodeError, w)
        \<and> course_details w code = (Inl JSONDecodeError, w)
        \<and> (req_method req = ''POST'' \<and> empty_labels (form req) = [] \<longrightarrow>
             add_course_of v w req = (Inl JSONDecodeError, w)))"
proof (intro conjI impI)
  assume "course_file w = Missing"
  then show "load_courses w = Inr (JArr [])" by (simp add: load_courses_def)
next
  assume g: "course_file w = Garbled"
  then show l: "load_courses w = Inl JSONDecodeError" by (simp add: load_courses_def)
  then show s: "save_courses w d = (Inl JSONDecodeError, w)" by (simp add: save_courses_def)
  from l show "course_catalog_of v w = (Inl JSONDecodeError, w)"
    by (rule course_catalog_of_error)
  from l show "course_details w code = (Inl JSONDecodeError, w)"
    by (simp add: course_details_def)
next
  assume "course_file w = Garbled" and p: "req_method req = ''POST'' \<and> empty_labels (form req) = []"
  then have "load_courses w = Inl JSONDecodeError" by (simp add: load_courses_def)
  then have "store_course w n i s c = (Inl JSONDecodeError, w)" for n i s c
    by (simp add: store_course_def save_courses_def)
  with p show "add_course_of v w req = (Inl JSONDecodeError, w)"
    by (simp add: add_course_of_filled)
qed

text \<open>Both cases on concrete states.\<close>

theorem load_courses_missing_or_garbled_witness:
  "course_file \<lparr>course_file = Missing, flashes = []\<rparr> = Missing
   \<and> load_courses \<lparr>course_file = Missing, flashes = []\<rparr> = Inr (JArr [])
   \<and> course_file \<lparr>course_file = Garbled, flashes = []\<rparr> = Garbled
   \<and> fst (course_catalog_of App \<lparr>course_file = Garbled, flashes = []\<rparr>) = Inl JSONDecodeError
   \<and> fst (course_details \<lparr>course_file = Garbled, flashes = []\<rparr> ''CS301'') = Inl JSONDecodeError
   \<and> req_method \<lparr>req_method = ''POST'', form = [''name'' \<mapsto> ''Algorithms'', ''instructor'' \<mapsto> ''Dr. A'',
          ''semester'' \<mapsto> ''Fall'', ''code'' \<mapsto> ''CS301'']\<rparr> = ''POST''
   \<and> empty_labels [''name'' \<mapsto> ''Algorithms'', ''instructor'' \<mapsto> ''Dr. A'',
          ''semester'' \<mapsto> ''Fall'', ''code'' \<mapsto> ''CS301''] = []
   \<and> add_course_of App \<lparr>course_file = Garbled, flashes = []\<rparr>
        \<lparr>req_method = ''POST'', form = [''name'' \<mapsto> ''Algorithms'', ''instructor'' \<mapsto> ''Dr. A'',
          ''semester'' \<mapsto> ''Fall'', ''code'' \<mapsto> ''CS301'']\<rparr>
      = (Inl JSONDecodeError, \<lparr>course_file = Garbled, flashes = []\<rparr>)"
proof -
  have e: "empty_labels [''name'' \<mapsto> ''Algorithms'', ''instructor'' \<mapsto> ''Dr. A'',
          ''semester'' \<mapsto> ''Fall'', ''code'' \<mapsto> ''CS301''] = []"
    by (simp add: empty_labels_def field_labels_def)
  show ?thesis
    using e
      load_courses_missing_or_garbled [of "\<lparr>course_file = Missing, flashes = []\<rparr>"]
      load_courses_missing_or_garbled
        [where w = "\<lparr>course_file = Garbled, flashes = []\<rparr>" and code = "''CS301''"
           and req = "\<lparr>req_method = ''POST'',
             form = [''name'' \<mapsto> ''Algorithms'', ''instructor'' \<mapsto> ''Dr. A'',
                     ''semester'' \<mapsto> ''Fall'', ''code'' \<mapsto> ''CS301'']\<rparr>"
           and v = App]
    by simp
qed

text \<open>
  C5. When the stored collection is the list \<open>cs\<close> (the file holds it, or there is no
  file and \<open>cs\<close> is empty), \<^verbatim>\<open>save_courses\<close> succeeds and leaves the file holding
  \<open>cs\<close> with the new record as its last element; nothing else changes.
\<close>

theorem save_courses_appends:
  assumes "load_courses w = Inr (JArr cs)"
  shows "fst (save_courses w d) = Inr ()
     \<and> course_file (snd (save_courses w d)) = Holds (JArr (cs @ [d]))
     \<and> load_courses (snd (save_courses w d)) = Inr (JArr (cs @ [d]))
     \<and> flashes (snd (save_courses w d)) = flashes w"
  using assms by (simp add: save_courses_list)

text \<open>Appending to a file of one record, and to no file.\<close>

theorem save_courses_appends_witness:
  "load_courses \<lparr>course_file = Holds (JArr [JObj [(''code'', JStr ''CS100'')]]), flashes = []\<rparr>
     = Inr (JArr [JObj [(''code'', JStr ''CS100'')]])
   \<and> load_courses \<lparr>course_file = Missing, flashes = []\<rparr> = Inr (JArr [])
   \<and> snd (save_courses \<lparr>course_file = Holds (JArr [JObj [(''code'', JStr ''CS100'')]]), flashes = []\<rparr>
        (JObj [(''code'', JStr ''CS301'')]))
     = \<lparr>course_file = Holds (JArr [JObj [(''code'', JStr ''CS100'')], JObj [(''code'', JStr ''CS301'')]]),
        flashes = []\<rparr>
   \<and> snd (save_courses \<lparr>course_file = Missing, flashes = []\<rparr> (JObj [(''code'', JStr ''CS301'')]))
     = \<lparr>course_file = Holds (JArr [JObj [(''code'', JStr ''CS301'')]]), flashes = []\<rparr>"
proof -
  let ?w = "\<lparr>course_file = Holds (JArr [JObj [(''code'', JStr ''CS100'')]]), flashes = []\<rparr>"
  let ?e = "\<lparr>course_file = Missing, flashes = []\<rparr>"
  have a: "load_courses ?w = Inr (JArr [JObj [(''code'', JStr ''CS100'')]])"
    by (simp add: load_courses_def)
  have b: "load_courses ?e = Inr (JArr [])" by (simp add: load_courses_def)
  have "snd (save_courses ?w d) = \<lparr>course_file = course_file (snd (save_courses ?w d)),
      flashes = flashes (snd (save_courses ?w d))\<rparr>" for d by simp
  moreover have "snd (save_courses ?e d) = \<lparr>course_file = course_file (snd (save_courses ?e d)),
      flashes = flashes (snd (save_courses ?e d))\<rparr>" for d by simp
  ultimately show ?thesis
    using a b save_courses_appends [OF a, of "JObj [(''code'', JStr ''CS301'')]"]
      save_courses_appends [OF b, of "JObj [(''code'', JStr ''CS301'')]"]
    by simp
qed

text \<open>
  C7. After \<^verbatim>\<open>save_courses\<close> on a stored list, \<^verbatim>\<open>load_courses\<close> returns a non-empty
  list whose last element is the record that was saved.
\<close>

theorem save_then_load_last:
  assumes "load_courses w = Inr (JArr cs)"
  shows "\<exists>xs. load_courses (snd (save_courses w d)) = Inr (JArr xs) \<and> xs \<noteq> [] \<and> last xs = d"
  using assms by (simp add: save_courses_list)

text \<open>A full course record saved after one other record.\<close>

theorem save_then_load_last_witness:
  "load_courses \<lparr>course_file = Holds (JArr [JObj [(''code'', JStr ''CS100'')]]), flashes = []\<rparr>
     = Inr (JArr [JObj [(''code'', JStr ''CS100'')]])
   \<and> (\<exists>xs. load_courses (snd (save_courses
          \<lparr>course_file = Holds (JArr [JObj [(''code'', JStr ''CS100'')]]), flashes = []\<rparr>
          (new_course (Some ''Algorithms'') (Some ''Dr. A'') (Some ''Fall'') (Some ''CS301''))))
        = Inr (JArr xs) \<and> xs \<noteq> []
        \<and> last xs = JObj [(''name'', JStr ''Algorithms''), (''instructor'', JStr ''Dr. A''),
                          (''semester'', JStr ''Fall''), (''code'', JStr ''CS301'')])"
proof -
  let ?w = "\<lparr>course_file = Holds (JArr [JObj [(''code'', JStr ''CS100'')]]), flashes = []\<rparr>"
  have a: "load_courses ?w = Inr (JArr [JObj [(''code'', JStr ''CS100'')]])"
    by (simp add: load_courses_def)
  show ?thesis
    using a save_then_load_last [OF a,
        of "new_course (Some ''Algorithms'') (Some ''Dr. A'') (Some ''Fall'') (Some ''CS301'')"]
    by (simp add: new_course_def)
qed

section \<open>Looking a course up\<close>

text \<open>
  C3. When the file holds a list whose elements are all dictionaries with a
  \<^verbatim>\<open>'code'\<close> key, \<^verbatim>\<open>course_details\<close> renders the first element, in stored order, whose
  code equals the requested one, and when there is none it redirects to the catalog
  with the not-found notice. Codes need not be distinct: of two records with the same
  code the earlier one is rendered.
\<close>

theorem course_details_first_match:
  assumes "load_courses w = Inr (JArr cs)"
    and "\<forall>c\<in>set cs. code_field c \<noteq> None"
  shows "course_details w code =
     (case find (\<lambda>c. code_field c = Some (JStr code)) cs of
        None \<Rightarrow> (Inr (Redirect ''course_catalog''), flash w (not_found_notice code) ''error'')
      | Some c \<Rightarrow> (Inr (Render ''course_details.html'' [(''course'', c)]), w))"
proof (cases "find (\<lambda>c. code_field c = Some (JStr code)) cs")
  case None
  with assms show ?thesis
    by (simp add: course_details_def find_course_find)
next
  case (Some c)
  then have "code_field c = Some (JStr code)"
    by (auto simp: find_Some_iff)
  then have "truthy c" by (rule code_field_truthy)
  with assms Some show ?thesis
    by (simp add: course_details_def find_course_find)
qed

text \<open>Two records share the code CS301: the earlier one is rendered. No record has the
  code CS999: the answer is the redirect.\<close>

theorem course_details_first_match_witness:
  "load_courses \<lparr>course_file = Holds (JArr
        [JObj [(''name'', JStr ''Logic''), (''code'', JStr ''CS302'')],
         JObj [(''name'', JStr ''Algorithms''), (''code'', JStr ''CS301'')],
         JObj [(''name'', JStr ''Automata''), (''code'', JStr ''CS301'')]]), flashes = []\<rparr>
     = Inr (JArr
        [JObj [(''name'', JStr ''Logic''), (''code'', JStr ''CS302'')],
         JObj [(''name'', JStr ''Algorithms''), (''code'', JStr ''CS301'')],
         JObj [(''name'', JStr ''Automata''), (''code'', JStr ''CS301'')]])
   \<and> list_all (\<lambda>c. code_field c \<noteq> None)
        [JObj [(''name'', JStr ''Logic''), (''code'', JStr ''CS302'')],
         JObj [(''name'', JStr ''Algorithms''), (''code'', JStr ''CS301'')],
         JObj [(''name'', JStr ''Automata''), (''code'', JStr ''CS301'')]]
   \<and> fst (course_details \<lparr>course_file = Holds (JArr
        [JObj [(''name'', JStr ''Logic''), (''code'', JStr ''CS302'')],
         JObj [(''name'', JStr ''Algorithms''), (''code'', JStr ''CS301'')],
         JObj [(''name'', JStr ''Automata''), (''code'', JStr ''CS301'')]]), flashes = []\<rparr> ''CS301'')
     = Inr (Render ''course_details.html''
         [(''course'', JObj [(''name'', JStr ''Algorithms''), (''code'', JStr ''CS301'')])])
   \<and> fst (course_details \<lparr>course_file = Holds (JArr
        [JObj [(''name'', JStr ''Logic''), (''code'', JStr ''CS302'')],
         JObj [(''name'', JStr ''Algorithms''), (''code'', JStr ''CS301'')],
         JObj [(''name'', JStr ''Automata''), (''code'', JStr ''CS301'')]]), flashes = []\<rparr> ''CS999'')
     = Inr (Redirect ''course_catalog'')"
proof -
  let ?cs = "[JObj [(''name'', JStr ''Logic''), (''code'', JStr ''CS302'')],
         JObj [(''name'', JStr ''Algorithms''), (''code'', JStr ''CS301'')],
         JObj [(''name'', JStr ''Automata''), (''code'', JStr ''CS301'')]]"
  let ?w = "\<lparr>course_file = Holds (JArr ?cs), flashes = []\<rparr>"
  have a: "load_courses ?w = Inr (JArr ?cs)" by (simp add: load_courses_def)
  have b: "\<forall>c\<in>set ?cs. code_field c \<noteq> None" by simp
  show ?thesis
    using a b course_details_first_match [OF a b, of "''CS301''"]
      course_details_first_match [OF a b, of "''CS999''"]
    by simp
qed

text \<open>
  C10. Over a stored list, \<^verbatim>\<open>course_details\<close> raises nothing when every element is a
  dictionary with a \<^verbatim>\<open>'code'\<close> key. When some element is not, the not-found redirect
  is never the answer; and when, besides, no element has the requested code, the
  answer is a \<^verbatim>\<open>KeyError\<close> or a \<^verbatim>\<open>TypeError\<close>.
\<close>

theorem course_details_needs_code:
  assumes "load_courses w = Inr (JArr cs)"
  shows "((\<forall>c\<in>set cs. code_field c \<noteq> None) \<longrightarrow> (\<exists>r. fst (course_details w code) = Inr r))
     \<and> ((\<exists>c\<in>set cs. code_field c = None) \<longrightarrow>
          fst (course_details w code) \<noteq> Inr (Redirect ''course_catalog''))
     \<and> ((\<exists>c\<in>set cs. code_field c = None) \<and> (\<forall>c\<in>set cs. code_field c \<noteq> Some (JStr code)) \<longrightarrow>
          fst (course_details w code) = Inl KeyError \<or> fst (course_details w code) = Inl TypeError)"
proof (intro conjI impI)
  assume "\<forall>c\<in>set cs. code_field c \<noteq> None"
  then have "find_course cs code = Inr (find (\<lambda>c. code_field c = Some (JStr code)) cs)"
    by (rule find_course_find)
  with assms show "\<exists>r. fst (course_details w code) = Inr r"
    by (simp add: course_details_list split: option.splits)
next
  assume bad: "\<exists>c\<in>set cs. code_field c = None"
  then have "find_course cs code \<noteq> Inr None"
    using find_course_None [of cs code] by fastforce
  with assms show "fst (course_details w code) \<noteq> Inr (Redirect ''course_catalog'')"
    by (simp add: course_details_list split: sum.splits option.splits)
next
  assume a: "(\<exists>c\<in>set cs. code_field c = None) \<and> (\<forall>c\<in>set cs. code_field c \<noteq> Some (JStr code))"
  then have "find_course cs code \<noteq> Inr None"
    using find_course_None [of cs code] by fastforce
  moreover from a have "find_course cs code \<noteq> Inr (Some c)" for c
    using find_course_Some [of cs code c] by fastforce
  ultimately obtain e where e: "find_course cs code = Inl e"
    by (cases "find_course cs code") auto
  then have "e = KeyError \<or> e = TypeError" by (rule find_course_error)
  with assms e show "fst (course_details w code) = Inl KeyError \<or> fst (course_details w code) = Inl TypeError"
    by (auto simp: course_details_list)
qed

text \<open>A record without a code makes the lookup of an absent code end in \<^verbatim>\<open>KeyError\<close>;
  with a well-formed record in its place the lookup returns.\<close>

theorem course_details_needs_code_witness:
  "load_courses \<lparr>course_file = Holds (JArr [JObj [(''name'', JStr ''Logic'')]]), flashes = []\<rparr>
     = Inr (JArr [JObj [(''name'', JStr ''Logic'')]])
   \<and> (\<exists>c\<in>set [JObj [(''name'', JStr ''Logic'')]]. code_field c = None)
   \<and> list_all (\<lambda>c. code_field c \<noteq> Some (JStr ''CS301'')) [JObj [(''name'', JStr ''Logic'')]]
   \<and> fst (course_details
        \<lparr>course_file = Holds (JArr [JObj [(''name'', JStr ''Logic'')]]), flashes = []\<rparr> ''CS301'')
     = Inl KeyError
   \<and> load_courses \<lparr>course_file = Holds (JArr [JObj [(''code'', JStr ''CS302'')]]), flashes = []\<rparr>
     = Inr (JArr [JObj [(''code'', JStr ''CS302'')]])
   \<and> list_all (\<lambda>c. code_field c \<noteq> None) [JObj [(''code'', JStr ''CS302'')]]
   \<and> (\<exists>r. fst (course_details
        \<lparr>course_file = Holds (JArr [JObj [(''code'', JStr ''CS302'')]]), flashes = []\<rparr> ''CS301'')
     = Inr r)"
proof -
  let ?bad = "\<lparr>course_file = Holds (JArr [JObj [(''name'', JStr ''Logic'')]]), flashes = []\<rparr>"
  let ?good = "\<lparr>course_file = Holds (JArr [JObj [(''code'', JStr ''CS302'')]]), flashes = []\<rparr>"
  have a: "load_courses ?bad = Inr (JArr [JObj [(''name'', JStr ''Logic'')]])"
    by (simp add: load_courses_def)
  have b: "load_courses ?good = Inr (JArr [JObj [(''code'', JStr ''CS302'')]])"
    by (simp add: load_courses_def)
  have k: "fst (course_details ?bad ''CS301'') \<noteq> Inl TypeError"
    by (simp add: course_details_def load_courses_def)
  show ?thesis
    using a b k course_details_needs_code [OF a, of "''CS301''"]
      course_details_needs_code [OF b, of "''CS301''"]
    by simp
qed

section \<open>The collection over time\<close>

text \<open>
  C6. Starting from an empty collection, after any finite run of submissions whose four
  fields are all non-empty the catalog page is rendered with exactly the submitted
  courses, in the order of the submissions. This holds in each of the five files.
\<close>

theorem catalog_after_adds:
  assumes "load_courses w = Inr (JArr [])"
    and "\<forall>f\<in>set fs. empty_labels f = []"
  shows "fst (course_catalog_of v (add_all v w fs)) =
     Inr (Render ''course_catalog.html'' [(''courses'', JArr (map course_of fs))])"
  using load_add_all [OF assms, of v] by (simp add: course_catalog_of_list)

text \<open>Two submissions to \<^verbatim>\<open>app.py\<close> with no file at the start.\<close>

theorem catalog_after_adds_witness:
  "load_courses \<lparr>course_file = Missing, flashes = []\<rparr> = Inr (JArr [])
   \<and> list_all (\<lambda>f. empty_labels f = [])
        [[''name'' \<mapsto> ''Algorithms'', ''instructor'' \<mapsto> ''Dr. A'',
                 ''semester'' \<mapsto> ''Fall'', ''code'' \<mapsto> ''CS301''],
                [''name'' \<mapsto> ''Logic'', ''instructor'' \<mapsto> ''Dr. B'',
                 ''semester'' \<mapsto> ''Spring'', ''code'' \<mapsto> ''CS302'']]
   \<and> fst (course_catalog_of App (add_all App \<lparr>course_file = Missing, flashes = []\<rparr>
        [[''name'' \<mapsto> ''Algorithms'', ''instructor'' \<mapsto> ''Dr. A'',
          ''semester'' \<mapsto> ''Fall'', ''code'' \<mapsto> ''CS301''],
         [''name'' \<mapsto> ''Logic'', ''instructor'' \<mapsto> ''Dr. B'',
          ''semester'' \<mapsto> ''Spring'', ''code'' \<mapsto> ''CS302'']]))
     = Inr (Render ''course_catalog.html'' [(''courses'',
         JArr [JObj [(''name'', JStr ''Algorithms''), (''instructor'', JStr ''Dr. A''),
                     (''semester'', JStr ''Fall''), (''code'', JStr ''CS301'')],
               JObj [(''name'', JStr ''Logic''), (''instructor'', JStr ''Dr. B''),
                     (''semester'', JStr ''Spring''), (''code'', JStr ''CS302'')]])])"
proof -
  let ?w = "\<lparr>course_file = Missing, flashes = []\<rparr>"
  let ?fs = "[[''name'' \<mapsto> ''Algorithms'', ''instructor'' \<mapsto> ''Dr. A'',
                 ''semester'' \<mapsto> ''Fall'', ''code'' \<mapsto> ''CS301''],
                [''name'' \<mapsto> ''Logic'', ''instructor'' \<mapsto> ''Dr. B'',
                 ''semester'' \<mapsto> ''Spring'', ''code'' \<mapsto> ''CS302'']]"
  have a: "load_courses ?w = Inr (JArr [])" by (simp add: load_courses_def)
  have b: "\<forall>f\<in>set ?fs. empty_labels f = []"
    by (simp add: empty_labels_def field_labels_def)
  show ?thesis
    using a b catalog_after_adds [OF a b, of App]
    by (simp add: course_of_def new_course_def)
qed

text \<open>
  C8. The landing page, the catalog and the detail page leave the file as it was. A
  request to \<^verbatim>\<open>/add_course\<close>, in any of the five files, either ends in the redirect to
  the catalog, and then the stored list is the former list with the new record added
  at the end, or leaves the file as it was.
\<close>

theorem no_update_or_delete:
  "course_file (snd (index w)) = course_file w
   \<and> course_file (snd (course_catalog_of v w)) = course_file w
   \<and> course_file (snd (course_details w code)) = course_file w
   \<and> (if fst (add_course_of v w req) = Inr (Redirect ''course_catalog'')
      then \<exists>cs. load_courses w = Inr (JArr cs) \<and>
             load_courses (snd (add_course_of v w req)) = Inr (JArr (cs @ [course_of (form req)]))
      else course_file (snd (add_course_of v w req)) = course_file w)"
proof (intro conjI)
  show "course_file (snd (index w)) = course_file w" by (simp add: index_def)
  show "course_file (snd (course_catalog_of v w)) = course_file w"
    by (simp add: course_catalog_of_frame)
  show "course_file (snd (course_details w code)) = course_file w"
    by (rule course_details_frame)
  show "if fst (add_course_of v w req) = Inr (Redirect ''course_catalog'')
      then \<exists>cs. load_courses w = Inr (JArr cs) \<and>
             load_courses (snd (add_course_of v w req)) = Inr (JArr (cs @ [course_of (form req)]))
      else course_file (snd (add_course_of v w req)) = course_file w"
    using add_course_frame [of w req] add_course2_frame [of w req]
    by (cases v) simp_all
qed

text \<open>A submission accepted by \<^verbatim>\<open>app2.py\<close> keeps the record that was there and adds
  the new one after it.\<close>

theorem no_update_or_delete_witness:
  "fst (add_course_of App2
        \<lparr>course_file = Holds (JArr [JObj [(''code'', JStr ''CS100'')]]), flashes = []\<rparr>
        \<lparr>req_method = ''POST'', form = [''name'' \<mapsto> ''Algorithms'', ''instructor'' \<mapsto> ''Dr. A'']\<rparr>)
     = Inr (Redirect ''course_catalog'')
   \<and> load_courses (snd (add_course_of App2
        \<lparr>course_file = Holds (JArr [JObj [(''code'', JStr ''CS100'')]]), flashes = []\<rparr>
        \<lparr>req_method = ''POST'', form = [''name'' \<mapsto> ''Algorithms'', ''instructor'' \<mapsto> ''Dr. A'']\<rparr>))
     = Inr (JArr [JObj [(''code'', JStr ''CS100'')],
                  JObj [(''name'', JStr ''Algorithms''), (''instructor'', JStr ''Dr. A''),
                        (''semester'', JNull), (''code'', JNull)]])
   \<and> course_file (snd (course_details
        \<lparr>course_file = Holds (JArr [JObj [(''code'', JStr ''CS100'')]]), flashes = []\<rparr> ''CS999''))
     = Holds (JArr [JObj [(''code'', JStr ''CS100'')]])"
proof -
  let ?w = "\<lparr>course_file = Holds (JArr [JObj [(''code'', JStr ''CS100'')]]), flashes = []\<rparr>"
  let ?req = "\<lparr>req_method = ''POST'', form = [''name'' \<mapsto> ''Algorithms'', ''instructor'' \<mapsto> ''Dr. A'']\<rparr>"
  have "fst (add_course_of App2 ?w ?req) = Inr (Redirect ''course_catalog'')"
    by (simp add: add_course2_def Let_def store_course_def save_courses_def load_courses_def)
  moreover have "load_courses ?w = Inr (JArr [JObj [(''code'', JStr ''CS100'')]])"
    by (simp add: load_courses_def)
  ultimately show ?thesis
    using no_update_or_delete [where w = ?w and code = "''CS999''" and v = App2 and req = ?req]
    by (auto simp: course_of_def new_course_def)
qed

end
